theory Spec2Isabelle
  imports Main "HOL-Library.Word"
begin

section \<open>Data model of client.go\<close>

text \<open>
  A Go \<open>error\<close> value is modelled by its message: \<open>errors.New(m)\<close> is \<open>Error m\<close> and
  \<open>err.Error()\<close> is \<open>message err\<close>. A nil error is \<open>None\<close> of \<open>error option\<close>.
\<close>

datatype error = Error (message: string)

text \<open>
  \<open>*ConnectionPool\<close> is an opaque pointer in client.go (the struct is declared elsewhere):
  a pool is identified by its heap address, and a nil pointer is \<open>None\<close> of
  \<open>ConnectionPool option\<close>.
\<close>

datatype ConnectionPool = PoolAt nat

record Config =
  Endpoints :: "string list"

record FastDFSClient =
  pool :: "ConnectionPool option"
  timeout :: int

record storagePool =
  addr :: string
  minConns :: int
  maxConns :: int

text \<open>
  The storage server descriptor a tracker query returns. client.go reads only its field
  \<open>ipAddr\<close> and hands the descriptor on to the storage operation.
\<close>

record StorageServer =
  ipAddr :: string

text \<open>
  The values travelling over \<open>fetchStoragePoolChan\<close>, a \<open>chan interface{}\<close>: a
  \<open>*ConnectionPool\<close>, an \<open>error\<close>, or a value of any other dynamic type.
\<close>

datatype iface = IPool "ConnectionPool option" | IError error | IOther

subsection \<open>The collaborators that are not part of client.go\<close>

text \<open>
  The tracker queries of \<open>TrackerClient\<close>, named as the methods are; the receiver
  \<open>tc = &TrackerClient{this.pool}\<close> is passed beside them.
\<close>

datatype trackerQuery =
    TrackerQueryStorageStorWithoutGroup
  | TrackerQueryStorageStorWithGroup string
  | TrackerQueryStorageUpdate string string
  | TrackerQueryStorageFetch string string

text \<open>
  The storage operations of \<open>StorageClient\<close>, with the arguments client.go passes after
  \<open>tc\<close> and \<open>storeServ\<close>, in the source's order. \<open>[]byte\<close> is a list of 8-bit words, \<open>int64\<close>
  a 64-bit word.
\<close>

datatype uploadOp =
    StorageUploadByFilename string
  | StorageUploadByBuffer "8 word list" string
  | StorageUploadSlaveByFilename string string string
  | StorageUploadSlaveByBuffer "8 word list" string string
  | StorageUploadAppenderByFilename string
  | StorageUploadAppenderByBuffer "8 word list" string

datatype downloadOp =
    StorageDownloadToFile string "64 word" "64 word" string
  | StorageDownloadToBuffer "8 word list" "64 word" "64 word" string

text \<open>
  Every call that leaves client.go is recorded as an event, in the order the calls are
  made. \<open>EvPoolRequest\<close> is the send of a request on \<open>storagePoolChan\<close>.
\<close>

datatype event =
    EvCheckFile string
  | EvTracker "ConnectionPool option" trackerQuery
  | EvPoolRequest storagePool
  | EvNewConnectionPool "string list" int int
  | EvStorageUpload "ConnectionPool option" "ConnectionPool option" StorageServer uploadOp
  | EvStorageDelete "ConnectionPool option" "ConnectionPool option" StorageServer string
  | EvStorageDownload "ConnectionPool option" "ConnectionPool option" StorageServer downloadOp

text \<open>
  The functions client.go calls and does not define are parameters of the model. Their
  results may change with time (a file appears, an endpoint becomes reachable), so each
  one reads the history of calls made so far. A Go result pair \<open>(value, err)\<close> is a pair of
  options, except for the tracker queries: client.go dereferences the descriptor whenever
  the error is nil, so a query yields either an error or a descriptor. The response
  structs \<open>UploadFileResponse\<close> and \<open>DownloadFileResponse\<close> are the type parameters
  \<open>'u\<close> and \<open>'d\<close>.
\<close>

record ('u, 'd) env =
  NewConnectionPool :: "event list \<Rightarrow> string list \<Rightarrow> int \<Rightarrow> int \<Rightarrow> ConnectionPool option \<times> error option"
  fdfsCheckFile :: "event list \<Rightarrow> string \<Rightarrow> error option"
  splitRemoteFileId :: "string \<Rightarrow> string list \<times> error option"
  trackerQuery :: "event list \<Rightarrow> ConnectionPool option \<Rightarrow> trackerQuery \<Rightarrow> error + StorageServer"
  storageUpload :: "event list \<Rightarrow> ConnectionPool option \<Rightarrow> ConnectionPool option \<Rightarrow> StorageServer
                      \<Rightarrow> uploadOp \<Rightarrow> 'u option \<times> error option"
  storageDeleteFile :: "event list \<Rightarrow> ConnectionPool option \<Rightarrow> ConnectionPool option \<Rightarrow> StorageServer
                      \<Rightarrow> string \<Rightarrow> error option"
  storageDownload :: "event list \<Rightarrow> ConnectionPool option \<Rightarrow> ConnectionPool option \<Rightarrow> StorageServer
                      \<Rightarrow> downloadOp \<Rightarrow> 'd option \<times> error option"

subsection \<open>Process-wide state\<close>

text \<open>
  The package-level \<open>storagePoolMap\<close> (a Go map may hold a nil pointer as a value) and
  the history of external calls.
\<close>

record state =
  storagePoolMap :: "string \<rightharpoonup> ConnectionPool option"
  trace :: "event list"

definition log :: "event \<Rightarrow> state \<Rightarrow> state" where
  "log ev s = s\<lparr>trace := trace s @ [ev]\<rparr>"

section \<open>The pool registry\<close>

text \<open>
  The body of the \<open>case spd := <-storagePoolChan\<close> branch of the loop started by \<open>init\<close>:
  the value it is about to send on \<open>fetchStoragePoolChan\<close>, and the state it leaves.
\<close>

definition registryHandle :: "('u, 'd) env \<Rightarrow> storagePool \<Rightarrow> state \<Rightarrow> iface \<times> state" where
  "registryHandle env spd s =
     (let ipAddr = addr spd in
      case storagePoolMap s ipAddr of
        Some sp \<Rightarrow> (IPool sp, s)
      | None \<Rightarrow>
          (case NewConnectionPool env (trace s) [ipAddr] (minConns spd) (maxConns spd) of
             (sp, err) \<Rightarrow>
               (let s' = log (EvNewConnectionPool [ipAddr] (minConns spd) (maxConns spd)) s in
                case err of
                  Some e \<Rightarrow> (IError e, s')
                | None \<Rightarrow> (IPool sp, s'\<lparr>storagePoolMap := (storagePoolMap s')(ipAddr \<mapsto> sp)\<rparr>))))"

text \<open>The type switch of \<open>getStoragePool\<close> on the value it received.\<close>

fun recvResult :: "iface \<Rightarrow> ConnectionPool option \<times> error option" where
  "recvResult (IError err) = (None, Some err)"
| "recvResult (IPool storagePool) = (storagePool, None)"
| "recvResult IOther = (None, Some (Error ''none''))"

text \<open>
  \<open>getStoragePool\<close> for a caller that runs alone: it sends its request, the registry
  serves it, and the caller takes the reply.
\<close>

definition getStoragePool ::
  "('u, 'd) env \<Rightarrow> FastDFSClient \<Rightarrow> string \<Rightarrow> state \<Rightarrow> (ConnectionPool option \<times> error option) \<times> state" where
  "getStoragePool env this ipAddr' s =
     (let spd = \<lparr>addr = ipAddr', minConns = 10, maxConns = 150\<rparr> in
      case registryHandle env spd (log (EvPoolRequest spd) s) of
        (result, s') \<Rightarrow> (recvResult result, s'))"

section \<open>The dispatch client\<close>

text \<open>A call of a collaborator is recorded, and answered from the history before it.\<close>

definition checkFile :: "('u, 'd) env \<Rightarrow> string \<Rightarrow> state \<Rightarrow> error option \<times> state" where
  "checkFile env filename s = (fdfsCheckFile env (trace s) filename, log (EvCheckFile filename) s)"

definition callTracker ::
  "('u, 'd) env \<Rightarrow> ConnectionPool option \<Rightarrow> trackerQuery \<Rightarrow> state \<Rightarrow> (error + StorageServer) \<times> state" where
  "callTracker env tc q s = (trackerQuery env (trace s) tc q, log (EvTracker tc q) s)"

definition callStorageUpload ::
  "('u, 'd) env \<Rightarrow> ConnectionPool option \<Rightarrow> ConnectionPool option \<Rightarrow> StorageServer \<Rightarrow> uploadOp \<Rightarrow> state
     \<Rightarrow> ('u option \<times> error option) \<times> state" where
  "callStorageUpload env store tc storeServ u s =
     (storageUpload env (trace s) store tc storeServ u, log (EvStorageUpload store tc storeServ u) s)"

definition callStorageDelete ::
  "('u, 'd) env \<Rightarrow> ConnectionPool option \<Rightarrow> ConnectionPool option \<Rightarrow> StorageServer \<Rightarrow> string \<Rightarrow> state
     \<Rightarrow> error option \<times> state" where
  "callStorageDelete env store tc storeServ remoteFilename s =
     (storageDeleteFile env (trace s) store tc storeServ remoteFilename,
      log (EvStorageDelete store tc storeServ remoteFilename) s)"

definition callStorageDownload ::
  "('u, 'd) env \<Rightarrow> ConnectionPool option \<Rightarrow> ConnectionPool option \<Rightarrow> StorageServer \<Rightarrow> downloadOp \<Rightarrow> state
     \<Rightarrow> ('d option \<times> error option) \<times> state" where
  "callStorageDownload env store tc storeServ d s =
     (storageDownload env (trace s) store tc storeServ d, log (EvStorageDownload store tc storeServ d) s)"

text \<open>
  \<open>New\<close>: the tracker pool is built from the configured endpoints; the struct literal
  leaves \<open>timeout\<close> at its zero value.
\<close>

definition New :: "('u, 'd) env \<Rightarrow> Config \<Rightarrow> state \<Rightarrow> (FastDFSClient option \<times> error option) \<times> state" where
  "New env cfg s =
     (case NewConnectionPool env (trace s) (Endpoints cfg) 10 150 of
        (pool', err) \<Rightarrow>
          (let s' = log (EvNewConnectionPool (Endpoints cfg) 10 150) s in
           case err of
             Some e \<Rightarrow> ((None, Some e), s')
           | None \<Rightarrow> ((Some \<lparr>pool = pool', timeout = 0\<rparr>, None), s')))"

text \<open>
  The nine operations. In each, the error \<open>getStoragePool\<close> returns is assigned to \<open>err\<close>
  and not read again: the next statement builds the \<open>StorageClient\<close> from the pool
  pointer, whatever it is, and the storage operation's result is the operation's result.
\<close>

definition UploadByFilename ::
  "('u, 'd) env \<Rightarrow> FastDFSClient \<Rightarrow> string \<Rightarrow> state \<Rightarrow> ('u option \<times> error option) \<times> state" where
  "UploadByFilename env this filename s =
     (case checkFile env filename s of
        (Some err, s1) \<Rightarrow> ((None, Some (Error (message err @ ''(uploading)''))), s1)
      | (None, s1) \<Rightarrow>
          (let tc = pool this in
           case callTracker env tc TrackerQueryStorageStorWithoutGroup s1 of
             (Inl err, s2) \<Rightarrow> ((None, Some err), s2)
           | (Inr storeServ, s2) \<Rightarrow>
               (case getStoragePool env this (ipAddr storeServ) s2 of
                  ((storagePool, err), s3) \<Rightarrow>
                    callStorageUpload env storagePool tc storeServ (StorageUploadByFilename filename) s3)))"

definition UploadByBuffer ::
  "('u, 'd) env \<Rightarrow> FastDFSClient \<Rightarrow> 8 word list \<Rightarrow> string \<Rightarrow> state \<Rightarrow> ('u option \<times> error option) \<times> state" where
  "UploadByBuffer env this filebuffer fileExtName s =
     (let tc = pool this in
      case callTracker env tc TrackerQueryStorageStorWithoutGroup s of
        (Inl err, s2) \<Rightarrow> ((None, Some err), s2)
      | (Inr storeServ, s2) \<Rightarrow>
          (case getStoragePool env this (ipAddr storeServ) s2 of
             ((storagePool, err), s3) \<Rightarrow>
               callStorageUpload env storagePool tc storeServ (StorageUploadByBuffer filebuffer fileExtName) s3))"

definition UploadSlaveByFilename ::
  "('u, 'd) env \<Rightarrow> FastDFSClient \<Rightarrow> string \<Rightarrow> string \<Rightarrow> string \<Rightarrow> state
     \<Rightarrow> ('u option \<times> error option) \<times> state" where
  "UploadSlaveByFilename env this filename remoteFileId prefixName s =
     (case checkFile env filename s of
        (Some err, s1) \<Rightarrow> ((None, Some (Error (message err @ ''(uploading)''))), s1)
      | (None, s1) \<Rightarrow>
          (case splitRemoteFileId env remoteFileId of
             (tmp, err) \<Rightarrow>
               if err \<noteq> None \<or> length tmp \<noteq> 2 then ((None, err), s1)
               else
                 (let groupName = tmp ! 0; remoteFilename = tmp ! 1; tc = pool this in
                  case callTracker env tc (TrackerQueryStorageStorWithGroup groupName) s1 of
                    (Inl err, s2) \<Rightarrow> ((None, Some err), s2)
                  | (Inr storeServ, s2) \<Rightarrow>
                      (case getStoragePool env this (ipAddr storeServ) s2 of
                         ((storagePool, err), s3) \<Rightarrow>
                           callStorageUpload env storagePool tc storeServ
                             (StorageUploadSlaveByFilename filename prefixName remoteFilename) s3))))"

definition UploadSlaveByBuffer ::
  "('u, 'd) env \<Rightarrow> FastDFSClient \<Rightarrow> 8 word list \<Rightarrow> string \<Rightarrow> string \<Rightarrow> state
     \<Rightarrow> ('u option \<times> error option) \<times> state" where
  "UploadSlaveByBuffer env this filebuffer remoteFileId fileExtName s =
     (case splitRemoteFileId env remoteFileId of
        (tmp, err) \<Rightarrow>
          if err \<noteq> None \<or> length tmp \<noteq> 2 then ((None, err), s)
          else
            (let groupName = tmp ! 0; remoteFilename = tmp ! 1; tc = pool this in
             case callTracker env tc (TrackerQueryStorageStorWithGroup groupName) s of
               (Inl err, s2) \<Rightarrow> ((None, Some err), s2)
             | (Inr storeServ, s2) \<Rightarrow>
                 (case getStoragePool env this (ipAddr storeServ) s2 of
                    ((storagePool, err), s3) \<Rightarrow>
                      callStorageUpload env storagePool tc storeServ
                        (StorageUploadSlaveByBuffer filebuffer remoteFilename fileExtName) s3)))"

definition UploadAppenderByFilename ::
  "('u, 'd) env \<Rightarrow> FastDFSClient \<Rightarrow> string \<Rightarrow> state \<Rightarrow> ('u option \<times> error option) \<times> state" where
  "UploadAppenderByFilename env this filename s =
     (case checkFile env filename s of
        (Some err, s1) \<Rightarrow> ((None, Some (Error (message err @ ''(uploading)''))), s1)
      | (None, s1) \<Rightarrow>
          (let tc = pool this in
           case callTracker env tc TrackerQueryStorageStorWithoutGroup s1 of
             (Inl err, s2) \<Rightarrow> ((None, Some err), s2)
           | (Inr storeServ, s2) \<Rightarrow>
               (case getStoragePool env this (ipAddr storeServ) s2 of
                  ((storagePool, err), s3) \<Rightarrow>
                    callStorageUpload env storagePool tc storeServ
                      (StorageUploadAppenderByFilename filename) s3)))"

definition UploadAppenderByBuffer ::
  "('u, 'd) env \<Rightarrow> FastDFSClient \<Rightarrow> 8 word list \<Rightarrow> string \<Rightarrow> state \<Rightarrow> ('u option \<times> error option) \<times> state" where
  "UploadAppenderByBuffer env this filebuffer fileExtName s =
     (let tc = pool this in
      case callTracker env tc TrackerQueryStorageStorWithoutGroup s of
        (Inl err, s2) \<Rightarrow> ((None, Some err), s2)
      | (Inr storeServ, s2) \<Rightarrow>
          (case getStoragePool env this (ipAddr storeServ) s2 of
             ((storagePool, err), s3) \<Rightarrow>
               callStorageUpload env storagePool tc storeServ
                 (StorageUploadAppenderByBuffer filebuffer fileExtName) s3))"

definition DeleteFile :: "('u, 'd) env \<Rightarrow> FastDFSClient \<Rightarrow> string \<Rightarrow> state \<Rightarrow> error option \<times> state" where
  "DeleteFile env this remoteFileId s =
     (case splitRemoteFileId env remoteFileId of
        (tmp, err) \<Rightarrow>
          if err \<noteq> None \<or> length tmp \<noteq> 2 then (err, s)
          else
            (let groupName = tmp ! 0; remoteFilename = tmp ! 1; tc = pool this in
             case callTracker env tc (TrackerQueryStorageUpdate groupName remoteFilename) s of
               (Inl err, s2) \<Rightarrow> (Some err, s2)
             | (Inr storeServ, s2) \<Rightarrow>
                 (case getStoragePool env this (ipAddr storeServ) s2 of
                    ((storagePool, err), s3) \<Rightarrow>
                      callStorageDelete env storagePool tc storeServ remoteFilename s3)))"

definition DownloadToFile ::
  "('u, 'd) env \<Rightarrow> FastDFSClient \<Rightarrow> string \<Rightarrow> string \<Rightarrow> 64 word \<Rightarrow> 64 word \<Rightarrow> state
     \<Rightarrow> ('d option \<times> error option) \<times> state" where
  "DownloadToFile env this localFilename remoteFileId offset downloadSize s =
     (case splitRemoteFileId env remoteFileId of
        (tmp, err) \<Rightarrow>
          if err \<noteq> None \<or> length tmp \<noteq> 2 then ((None, err), s)
          else
            (let groupName = tmp ! 0; remoteFilename = tmp ! 1; tc = pool this in
             case callTracker env tc (TrackerQueryStorageFetch groupName remoteFilename) s of
               (Inl err, s2) \<Rightarrow> ((None, Some err), s2)
             | (Inr storeServ, s2) \<Rightarrow>
                 (case getStoragePool env this (ipAddr storeServ) s2 of
                    ((storagePool, err), s3) \<Rightarrow>
                      callStorageDownload env storagePool tc storeServ
                        (StorageDownloadToFile localFilename offset downloadSize remoteFilename) s3)))"

definition DownloadToBuffer ::
  "('u, 'd) env \<Rightarrow> FastDFSClient \<Rightarrow> string \<Rightarrow> 64 word \<Rightarrow> 64 word \<Rightarrow> state
     \<Rightarrow> ('d option \<times> error option) \<times> state" where
  "DownloadToBuffer env this remoteFileId offset downloadSize s =
     (case splitRemoteFileId env remoteFileId of
        (tmp, err) \<Rightarrow>
          if err \<noteq> None \<or> length tmp \<noteq> 2 then ((None, err), s)
          else
            (let groupName = tmp ! 0; remoteFilename = tmp ! 1; tc = pool this in
             case callTracker env tc (TrackerQueryStorageFetch groupName remoteFilename) s of
               (Inl err, s2) \<Rightarrow> ((None, Some err), s2)
             | (Inr storeServ, s2) \<Rightarrow>
                 (case getStoragePool env this (ipAddr storeServ) s2 of
                    ((storagePool, err), s3) \<Rightarrow>
                      (let fileBuffer = [] in
                       callStorageDownload env storagePool tc storeServ
                         (StorageDownloadToBuffer fileBuffer offset downloadSize remoteFilename) s3))))"

subsection \<open>The operations as one family\<close>

datatype call =
    CallUploadByFilename string
  | CallUploadByBuffer "8 word list" string
  | CallUploadSlaveByFilename string string string
  | CallUploadSlaveByBuffer "8 word list" string string
  | CallUploadAppenderByFilename string
  | CallUploadAppenderByBuffer "8 word list" string
  | CallDeleteFile string
  | CallDownloadToFile string string "64 word" "64 word"
  | CallDownloadToBuffer string "64 word" "64 word"

datatype ('u, 'd) result =
    UploadResult "'u option" "error option"
  | DeleteResult "error option"
  | DownloadResult "'d option" "error option"

fun resultError :: "('u, 'd) result \<Rightarrow> error option" where
  "resultError (UploadResult r err) = err"
| "resultError (DeleteResult err) = err"
| "resultError (DownloadResult r err) = err"

definition uploadResult :: "('u option \<times> error option) \<times> state \<Rightarrow> ('u, 'd) result \<times> state" where
  "uploadResult x = (UploadResult (fst (fst x)) (snd (fst x)), snd x)"

definition deleteResult :: "error option \<times> state \<Rightarrow> ('u, 'd) result \<times> state" where
  "deleteResult x = (DeleteResult (fst x), snd x)"

definition downloadResult :: "('d option \<times> error option) \<times> state \<Rightarrow> ('u, 'd) result \<times> state" where
  "downloadResult x = (DownloadResult (fst (fst x)) (snd (fst x)), snd x)"

fun dispatch :: "('u, 'd) env \<Rightarrow> FastDFSClient \<Rightarrow> call \<Rightarrow> state \<Rightarrow> ('u, 'd) result \<times> state" where
  "dispatch env this (CallUploadByFilename filename) s =
     uploadResult (UploadByFilename env this filename s)"
| "dispatch env this (CallUploadByBuffer filebuffer fileExtName) s =
     uploadResult (UploadByBuffer env this filebuffer fileExtName s)"
| "dispatch env this (CallUploadSlaveByFilename filename remoteFileId prefixName) s =
     uploadResult (UploadSlaveByFilename env this filename remoteFileId prefixName s)"
| "dispatch env this (CallUploadSlaveByBuffer filebuffer remoteFileId fileExtName) s =
     uploadResult (UploadSlaveByBuffer env this filebuffer remoteFileId fileExtName s)"
| "dispatch env this (CallUploadAppenderByFilename filename) s =
     uploadResult (UploadAppenderByFilename env this filename s)"
| "dispatch env this (CallUploadAppenderByBuffer filebuffer fileExtName) s =
     uploadResult (UploadAppenderByBuffer env this filebuffer fileExtName s)"
| "dispatch env this (CallDeleteFile remoteFileId) s =
     deleteResult (DeleteFile env this remoteFileId s)"
| "dispatch env this (CallDownloadToFile localFilename remoteFileId offset downloadSize) s =
     downloadResult (DownloadToFile env this localFilename remoteFileId offset downloadSize s)"
| "dispatch env this (CallDownloadToBuffer remoteFileId offset downloadSize) s =
     downloadResult (DownloadToBuffer env this remoteFileId offset downloadSize s)"

section \<open>Channels and goroutines\<close>

text \<open>
  A channel is nil (declared and never made) or a buffer of a fixed capacity, oldest value
  first. \<open>None\<close> means the operation cannot proceed now: a send blocks while the buffer
  is full, a receive while it is empty, and both block for ever on a nil channel.
  client.go makes its channels with capacity 1 and no unbuffered one.
\<close>

datatype 'a chan = NilChan | Chan nat "'a list"

fun chanSend :: "'a chan \<Rightarrow> 'a \<Rightarrow> 'a chan option" where
  "chanSend NilChan v = None"
| "chanSend (Chan cap buf) v = (if length buf < cap then Some (Chan cap (buf @ [v])) else None)"

fun chanRecv :: "'a chan \<Rightarrow> ('a \<times> 'a chan) option" where
  "chanRecv NilChan = None"
| "chanRecv (Chan cap []) = None"
| "chanRecv (Chan cap (v # buf)) = Some (v, Chan cap buf)"

text \<open>
  The program points at which a goroutine can block. A call of \<open>getStoragePool\<close> is at its
  send on \<open>storagePoolChan\<close>, at its receive from \<open>fetchStoragePoolChan\<close>, or has returned;
  the address it asked for is kept beside its result. A call of \<open>Close\<close> is at its send on
  \<open>quit\<close> or has returned. The registry loop is at its \<open>select\<close>, or holds a reply it is
  about to send.
\<close>

datatype goroutine =
    GetStoragePoolSend string
  | GetStoragePoolRecv string
  | GetStoragePoolReturned string "ConnectionPool option \<times> error option"
  | CloseSend
  | CloseReturned

datatype registryPc = AtSelect | AtReply iface

record gstate =
  storagePoolChan :: "storagePool chan"
  fetchStoragePoolChan :: "iface chan"
  quit :: "bool chan"
  shared :: state
  registry :: registryPc
  goroutines :: "goroutine list"

text \<open>
  The package-level variables as their declarations leave them (\<open>quit\<close> has no
  initialiser, and client.go never assigns it), and the loop \<open>init\<close> has started.
\<close>

definition init :: "goroutine list \<Rightarrow> gstate" where
  "init gs =
     \<lparr>storagePoolChan = Chan 1 [], fetchStoragePoolChan = Chan 1 [], quit = NilChan,
      shared = \<lparr>storagePoolMap = Map.empty, trace = []\<rparr>,
      registry = AtSelect, goroutines = gs\<rparr>"

fun stepGoroutine :: "goroutine \<Rightarrow> gstate \<Rightarrow> (goroutine \<times> gstate) option" where
  "stepGoroutine (GetStoragePoolSend a) g =
     (let spd = \<lparr>addr = a, minConns = 10, maxConns = 150\<rparr> in
      case chanSend (storagePoolChan g) spd of
        None \<Rightarrow> None
      | Some c \<Rightarrow>
          Some (GetStoragePoolRecv a,
                g\<lparr>storagePoolChan := c, shared := log (EvPoolRequest spd) (shared g)\<rparr>))"
| "stepGoroutine (GetStoragePoolRecv a) g =
     (case chanRecv (fetchStoragePoolChan g) of
        None \<Rightarrow> None
      | Some (result, c) \<Rightarrow>
          Some (GetStoragePoolReturned a (recvResult result), g\<lparr>fetchStoragePoolChan := c\<rparr>))"
| "stepGoroutine (GetStoragePoolReturned a r) g = None"
| "stepGoroutine CloseSend g =
     (case chanSend (quit g) True of
        None \<Rightarrow> None
      | Some c \<Rightarrow> Some (CloseReturned, g\<lparr>quit := c\<rparr>))"
| "stepGoroutine CloseReturned g = None"

text \<open>
  One scheduling decision: a branch of the registry's \<open>select\<close>, the registry's send of its
  reply, or the next step of the i-th calling goroutine. \<open>None\<close> when that step cannot be
  taken in the state. The \<open>break\<close> of the \<open>quit\<close> branch leaves the \<open>select\<close> statement only,
  so the loop is back at its \<open>select\<close>.
\<close>

datatype action = RegistryCaseSpd | RegistryCaseQuit | RegistryReply | Goroutine nat

fun step :: "('u, 'd) env \<Rightarrow> action \<Rightarrow> gstate \<Rightarrow> gstate option" where
  "step env RegistryCaseSpd g =
     (case registry g of
        AtReply r \<Rightarrow> None
      | AtSelect \<Rightarrow>
          (case chanRecv (storagePoolChan g) of
             None \<Rightarrow> None
           | Some (spd, c) \<Rightarrow>
               (case registryHandle env spd (shared g) of
                  (r, s') \<Rightarrow> Some (g\<lparr>storagePoolChan := c, shared := s', registry := AtReply r\<rparr>))))"
| "step env RegistryCaseQuit g =
     (case registry g of
        AtReply r \<Rightarrow> None
      | AtSelect \<Rightarrow>
          (case chanRecv (quit g) of
             None \<Rightarrow> None
           | Some (b, c) \<Rightarrow> Some (g\<lparr>quit := c, registry := AtSelect\<rparr>)))"
| "step env RegistryReply g =
     (case registry g of
        AtSelect \<Rightarrow> None
      | AtReply r \<Rightarrow>
          (case chanSend (fetchStoragePoolChan g) r of
             None \<Rightarrow> None
           | Some c \<Rightarrow> Some (g\<lparr>fetchStoragePoolChan := c, registry := AtSelect\<rparr>)))"
| "step env (Goroutine i) g =
     (if i < length (goroutines g) then
        (case stepGoroutine (goroutines g ! i) g of
           None \<Rightarrow> None
         | Some (p, g') \<Rightarrow> Some (g'\<lparr>goroutines := (goroutines g')[i := p]\<rparr>))
      else None)"

text \<open>An execution: the scheduling decisions taken one after the other.\<close>

fun run :: "('u, 'd) env \<Rightarrow> action list \<Rightarrow> gstate \<Rightarrow> gstate option" where
  "run env [] g = Some g"
| "run env (a # as) g = (case step env a g of None \<Rightarrow> None | Some g' \<Rightarrow> run env as g')"

section \<open>Observing an execution\<close>

text \<open>The calls made between an earlier state and a later one.\<close>

definition newEvents :: "state \<Rightarrow> state \<Rightarrow> event list" where
  "newEvents s s' = drop (length (trace s)) (trace s')"

fun isTracker :: "event \<Rightarrow> bool" where
  "isTracker (EvTracker tc q) = True"
| "isTracker ev = False"

text \<open>A pool request or a pool construction carries the bounds 10 and 150.\<close>

fun fixedBounds :: "event \<Rightarrow> bool" where
  "fixedBounds (EvPoolRequest spd) = (minConns spd = 10 \<and> maxConns spd = 150)"
| "fixedBounds (EvNewConnectionPool addrs mn mx) = (mn = 10 \<and> mx = 150)"
| "fixedBounds ev = True"

text \<open>A storage operation invoked on a \<open>StorageClient\<close> whose pool pointer is nil.\<close>

fun storageOnNilPool :: "event \<Rightarrow> bool" where
  "storageOnNilPool (EvStorageUpload store tc serv u) = (store = None)"
| "storageOnNilPool (EvStorageDelete store tc serv f) = (store = None)"
| "storageOnNilPool (EvStorageDownload store tc serv d) = (store = None)"
| "storageOnNilPool ev = False"

text \<open>
  The calls that concern the registry, and the ones \<open>getStoragePool\<close> causes for an
  address: its request, with the bounds 10 and 150, followed by the construction of the
  pool, with the same bounds, when the map has no entry for the address.
\<close>

fun isPoolEvent :: "event \<Rightarrow> bool" where
  "isPoolEvent (EvPoolRequest spd) = True"
| "isPoolEvent (EvNewConnectionPool addrs mn mx) = True"
| "isPoolEvent ev = False"

definition poolEvents :: "state \<Rightarrow> string \<Rightarrow> event list" where
  "poolEvents s a =
     EvPoolRequest \<lparr>addr = a, minConns = 10, maxConns = 150\<rparr> #
       (case storagePoolMap s a of None \<Rightarrow> [EvNewConnectionPool [a] 10 150] | Some sp \<Rightarrow> [])"

section \<open>A concrete environment\<close>

text \<open>
  Modelled from the spec: \<open>splitRemoteFileId\<close> is called by client.go and defined outside
  it. The spec gives the identifier the form \<open>group/remoteFilename\<close>, split on the first
  separator into exactly two parts, both non-empty; anything else is a malformed
  identifier. This function is used only to build the concrete environment below; the
  operations take the splitter as a parameter.
\<close>

definition splitRemoteFileId_spec :: "string \<Rightarrow> string list \<times> error option" where
  "splitRemoteFileId_spec remoteFileId =
     (let groupName = takeWhile (\<lambda>c. c \<noteq> CHR ''/'') remoteFileId;
          rest = dropWhile (\<lambda>c. c \<noteq> CHR ''/'') remoteFileId
      in if groupName \<noteq> [] \<and> 1 < length rest then ([groupName, tl rest], None)
         else ([], Some (Error ''malformed remote file id'')))"

text \<open>
  An environment to run the model in: the file \<open>missing\<close> does not exist; the tracker names
  the storage server \<open>A\<close> for uploads and \<open>B\<close> for delete and download; the address \<open>down\<close>
  refuses the first attempt to build its pool and accepts the later ones; a new pool lies
  at an address of its own; a storage operation fails on a nil pool.
\<close>

definition demoEnv :: "(string, string) env" where
  "demoEnv =
     \<lparr>NewConnectionPool = (\<lambda>h addrs mn mx.
         if addrs = [''down''] \<and> EvNewConnectionPool addrs mn mx \<notin> set h
         then (None, Some (Error ''connection refused''))
         else (Some (PoolAt (length h)), None)),
      fdfsCheckFile = (\<lambda>h filename.
         if filename = ''missing'' then Some (Error ''no such file'') else None),
      splitRemoteFileId = splitRemoteFileId_spec,
      trackerQuery = (\<lambda>h tc q.
         case q of
           TrackerQueryStorageStorWithoutGroup \<Rightarrow> Inr \<lparr>ipAddr = ''A''\<rparr>
         | TrackerQueryStorageStorWithGroup g \<Rightarrow> Inr \<lparr>ipAddr = ''A''\<rparr>
         | TrackerQueryStorageUpdate g f \<Rightarrow> Inr \<lparr>ipAddr = ''B''\<rparr>
         | TrackerQueryStorageFetch g f \<Rightarrow> Inr \<lparr>ipAddr = ''B''\<rparr>),
      storageUpload = (\<lambda>h store tc serv u.
         case store of
           None \<Rightarrow> (None, Some (Error ''nil pool''))
         | Some p \<Rightarrow> (Some ''uploaded'', None)),
      storageDeleteFile = (\<lambda>h store tc serv f.
         case store of None \<Rightarrow> Some (Error ''nil pool'') | Some p \<Rightarrow> None),
      storageDownload = (\<lambda>h store tc serv d.
         case store of
           None \<Rightarrow> (None, Some (Error ''nil pool''))
         | Some p \<Rightarrow> (Some ''content'', None))\<rparr>"

text \<open>
  The same environment with a tracker that always names the storage server \<open>down\<close>, and
  with no pool that can be built.
\<close>

definition deadEnv :: "(string, string) env" where
  "deadEnv =
     demoEnv\<lparr>NewConnectionPool := (\<lambda>h addrs mn mx. (None, Some (Error ''connection refused''))),
             trackerQuery := (\<lambda>h tc q. Inr \<lparr>ipAddr = ''down''\<rparr>)\<rparr>"

definition demoClient :: FastDFSClient where
  "demoClient = \<lparr>pool = Some (PoolAt 0), timeout = 0\<rparr>"

definition emptyState :: state where
  "emptyState = \<lparr>storagePoolMap = Map.empty, trace = []\<rparr>"

text \<open>A state in which the pool of \<open>A\<close> is already recorded.\<close>

definition warmState :: state where
  "warmState = \<lparr>storagePoolMap = [''A'' \<mapsto> Some (PoolAt 7)], trace = []\<rparr>"

text \<open>
  Two calls of \<open>getStoragePool\<close>, for \<open>A\<close> and for \<open>B\<close>, from a state in which the pool of
  \<open>A\<close> is already recorded.
\<close>

definition warmStart :: gstate where
  "warmStart = (init [GetStoragePoolSend ''A'', GetStoragePoolSend ''B''])\<lparr>shared := warmState\<rparr>"

text \<open>
  An interleaving of two calls of \<open>getStoragePool\<close>: the first caller sends its request and
  the registry answers it; before the first caller takes the reply, the second caller sends
  its request and receives; the registry answers the second request, and the first caller
  receives.
\<close>

definition crossTalk :: "action list" where
  "crossTalk = [Goroutine 0, RegistryCaseSpd, RegistryReply, Goroutine 1, Goroutine 1,
                RegistryCaseSpd, RegistryReply, Goroutine 0]"

section \<open>The splitter of the concrete environment\<close>

text \<open>
  \<open>splitRemoteFileId_spec\<close> accepts exactly the identifiers made of a non-empty group
  without separator, a separator and a non-empty remote file name, and yields these two
  parts.
\<close>

lemma splitRemoteFileId_spec_accepts:
  assumes "g \<noteq> []" and "f \<noteq> []" and "CHR ''/'' \<notin> set g"
  shows "splitRemoteFileId_spec (g @ CHR ''/'' # f) = ([g, f], None)"
proof -
  have "\<And>x. x \<in> set g \<Longrightarrow> x \<noteq> CHR ''/''" using assms(3) by auto
  then have "takeWhile (\<lambda>c. c \<noteq> CHR ''/'') (g @ CHR ''/'' # f) = g"
    and "dropWhile (\<lambda>c. c \<noteq> CHR ''/'') (g @ CHR ''/'' # f) = CHR ''/'' # f"
    by simp_all
  with assms show ?thesis
    by (simp add: splitRemoteFileId_spec_def Let_def)
qed

lemma splitRemoteFileId_spec_rejects:
  assumes "snd (splitRemoteFileId_spec rid) = None"
  shows "\<exists>g f. g \<noteq> [] \<and> f \<noteq> [] \<and> CHR ''/'' \<notin> set g \<and> rid = g @ CHR ''/'' # f \<and>
               splitRemoteFileId_spec rid = ([g, f], None)"
proof -
  let ?P = "\<lambda>c. c \<noteq> CHR ''/''"
  let ?g = "takeWhile ?P rid" and ?rest = "dropWhile ?P rid"
  from assms have g: "?g \<noteq> []" and len: "1 < length ?rest"
    by (auto simp: splitRemoteFileId_spec_def Let_def split: if_splits)
  from len obtain x f where rest: "?rest = x # f" and f: "f \<noteq> []"
    by (cases ?rest) auto
  have "\<not> ?P (hd ?rest)" using hd_dropWhile [of ?P rid] rest by simp
  with rest have x: "x = CHR ''/''" by simp
  have "rid = ?g @ ?rest" by simp
  with rest x have rid: "rid = ?g @ CHR ''/'' # f" by simp
  have notin: "CHR ''/'' \<notin> set ?g" by (auto dest: set_takeWhileD)
  from g f notin rid splitRemoteFileId_spec_accepts [OF g f notin] show ?thesis
    by metis
qed

section \<open>Properties of the pool registry\<close>

lemma registryHandle_keeps:
  assumes "storagePoolMap s a = Some sp" and "registryHandle env spd s = (r, s')"
  shows "storagePoolMap s' a = Some sp"
  using assms
  by (auto simp: registryHandle_def log_def Let_def split: option.splits prod.splits)





lemma step_keeps:
  assumes "storagePoolMap (shared g) a = Some sp" and "step env act g = Some g'"
  shows "storagePoolMap (shared g') a = Some sp"
proof (cases act)
  case RegistryCaseSpd
  with assms show ?thesis
    by (auto split: registryPc.splits option.splits prod.splits dest: registryHandle_keeps)
next
  case RegistryCaseQuit
  with assms show ?thesis by (auto split: registryPc.splits option.splits prod.splits)
next
  case RegistryReply
  with assms show ?thesis by (auto split: registryPc.splits option.splits prod.splits)
next
  case (Goroutine i)
  with assms show ?thesis
    by (cases "goroutines g ! i")
       (auto simp: log_def Let_def split: if_splits option.splits prod.splits)
qed

lemma run_keeps:
  "storagePoolMap (shared g) a = Some sp \<Longrightarrow> run env sched g = Some g' \<Longrightarrow>
   storagePoolMap (shared g') a = Some sp"
proof (induction sched arbitrary: g)
  case Nil
  then show ?case by simp
next
  case (Cons act sched)
  then show ?case by (auto split: option.splits dest: step_keeps)
qed

text \<open>
  An entry of the map, once written, stays: from a state whose map records the pool \<open>sp\<close>
  for the address \<open>a\<close>, after any execution (any interleaving of the registry loop with
  any calls of \<open>getStoragePool\<close> and \<open>Close\<close>) the map still records \<open>sp\<close> for \<open>a\<close>, the
  registry answers a request for \<open>a\<close> with \<open>sp\<close> and leaves the state unchanged, and
  \<open>getStoragePool\<close>, called for \<open>a\<close> by a caller running alone, returns \<open>sp\<close>.
\<close>

lemma registry_entry_is_stable:
  assumes "storagePoolMap (shared g) a = Some sp"
      and "run env sched g = Some g1"
  shows "storagePoolMap (shared g1) a = Some sp \<and>
         registryHandle env \<lparr>addr = a, minConns = mn, maxConns = mx\<rparr> (shared g1)
           = (IPool sp, shared g1) \<and>
         fst (getStoragePool env this a (shared g1)) = (sp, None)"
proof -
  have "storagePoolMap (shared g1) a = Some sp"
    using assms by (rule run_keeps)
  then show ?thesis
    by (simp add: getStoragePool_def registryHandle_def log_def)
qed

text \<open>
  C1 fails on the code where calls overlap. The map records the pool at 7 for \<open>A\<close>. Two
  calls of \<open>getStoragePool\<close>, for \<open>A\<close> and for \<open>B\<close>, are scheduled as in \<open>crossTalk\<close>. The
  map still records the pool at 7 for \<open>A\<close> at the end, and the registry has answered the
  request for \<open>A\<close> with it; but the call for \<open>A\<close> returns the pool at 2, built for \<open>B\<close>,
  and the call for \<open>B\<close> returns the pool recorded for \<open>A\<close>.
\<close>

theorem recorded_pool_reaches_other_caller:
  "storagePoolMap (shared warmStart) ''A'' = Some (Some (PoolAt 7)) \<and>
   map_option (\<lambda>g. (goroutines g, storagePoolMap (shared g) ''A''))
     (run demoEnv crossTalk warmStart)
   = Some ([GetStoragePoolReturned ''A'' (Some (PoolAt 2), None),
            GetStoragePoolReturned ''B'' (Some (PoolAt 7), None)],
           Some (Some (PoolAt 7)))"
  by (simp add: crossTalk_def warmStart_def warmState_def init_def demoEnv_def
                registryHandle_def log_def Let_def numeral_2_eq_2)

text \<open>
  C6. Two overlapping calls of \<open>getStoragePool\<close>, for the distinct addresses \<open>A\<close> and \<open>B\<close>,
  scheduled as in \<open>crossTalk\<close>: the registry records the pool at 1 for \<open>A\<close> and the pool at 3
  for \<open>B\<close>, and the call for \<open>A\<close> returns the pool of \<open>B\<close> while the call for \<open>B\<close> returns
  the pool of \<open>A\<close>. Both replies travel over the one channel \<open>fetchStoragePoolChan\<close>, and
  a caller takes whatever reply is in it.
\<close>

theorem shared_reply_channel_crosses_results:
  "map_option (\<lambda>g. (goroutines g, storagePoolMap (shared g) ''A'', storagePoolMap (shared g) ''B''))
     (run demoEnv crossTalk (init [GetStoragePoolSend ''A'', GetStoragePoolSend ''B'']))
   = Some ([GetStoragePoolReturned ''A'' (Some (PoolAt 3), None),
            GetStoragePoolReturned ''B'' (Some (PoolAt 1), None)],
           Some (Some (PoolAt 1)), Some (Some (PoolAt 3)))"
  by (simp add: crossTalk_def init_def demoEnv_def registryHandle_def log_def Let_def
                numeral_3_eq_3)

text \<open>
  A caller that runs alone, with both channels empty and the registry at its \<open>select\<close>,
  gets from the goroutines exactly what the function \<open>getStoragePool\<close> above computes.
\<close>

lemma getStoragePool_alone:
  assumes "storagePoolChan g = Chan 1 []" and "fetchStoragePoolChan g = Chan 1 []"
      and "registry g = AtSelect" and "goroutines g = [GetStoragePoolSend a]"
  shows "map_option (\<lambda>g'. (goroutines g', shared g', storagePoolChan g', fetchStoragePoolChan g',
                            registry g'))
           (run env [Goroutine 0, RegistryCaseSpd, RegistryReply, Goroutine 0] g)
         = Some ([GetStoragePoolReturned a (fst (getStoragePool env this a (shared g)))],
                 snd (getStoragePool env this a (shared g)), Chan 1 [], Chan 1 [], AtSelect)"
  using assms
  by (simp add: getStoragePool_def Let_def split: prod.splits)

section \<open>Properties of Close\<close>

lemma step_Close_blocked:
  assumes "quit g = NilChan" and "i < length (goroutines g)" and "goroutines g ! i = CloseSend"
      and "step env act g = Some g'"
  shows "quit g' = NilChan \<and> length (goroutines g') = length (goroutines g) \<and>
         goroutines g' ! i = CloseSend"
proof (cases act)
  case RegistryCaseSpd
  with assms show ?thesis by (auto split: registryPc.splits option.splits prod.splits)
next
  case RegistryCaseQuit
  with assms show ?thesis by (auto split: registryPc.splits option.splits prod.splits)
next
  case RegistryReply
  with assms show ?thesis by (auto split: registryPc.splits option.splits prod.splits)
next
  case (Goroutine j)
  show ?thesis
  proof (cases "j = i")
    case True
    with assms Goroutine show ?thesis by simp
  next
    case False
    with assms Goroutine show ?thesis
      by (cases "goroutines g ! j")
         (auto simp: Let_def split: if_splits option.splits prod.splits)
  qed
qed

lemma run_Close_blocked:
  "quit g = NilChan \<Longrightarrow> i < length (goroutines g) \<Longrightarrow> goroutines g ! i = CloseSend \<Longrightarrow>
   run env sched g = Some g' \<Longrightarrow>
   quit g' = NilChan \<and> length (goroutines g') = length (goroutines g) \<and>
   goroutines g' ! i = CloseSend"
proof (induction sched arbitrary: g)
  case Nil
  then show ?case by simp
next
  case (Cons act sched)
  from Cons.prems obtain g1 where s: "step env act g = Some g1" and r: "run env sched g1 = Some g'"
    by (auto split: option.splits)
  have inv: "quit g1 = NilChan \<and> length (goroutines g1) = length (goroutines g) \<and>
             goroutines g1 ! i = CloseSend"
    using Cons.prems(1-3) s by (rule step_Close_blocked)
  then have "quit g' = NilChan \<and> length (goroutines g') = length (goroutines g1) \<and>
             goroutines g' ! i = CloseSend"
    using Cons.prems(2) r by (intro Cons.IH) simp_all
  with inv show ?case by simp
qed

text \<open>
  Were \<open>quit\<close> a made channel holding a value, taking the \<open>quit\<close> branch would leave the
  registry at its \<open>select\<close>, ready for the next request, with the map and the request
  channel as they were: the \<open>break\<close> ends the \<open>select\<close>, not the loop.
\<close>

lemma quit_branch_keeps_loop:
  assumes "step env RegistryCaseQuit g = Some g'"
  shows "registry g' = AtSelect \<and> shared g' = shared g \<and> storagePoolChan g' = storagePoolChan g"
  using assms by (auto split: registryPc.splits option.splits prod.splits)

text \<open>
  C10. \<open>quit\<close> is declared without an initialiser and never made, so it is a nil channel.
  From the initial state, after any execution, a call of \<open>Close\<close> is still at its send
  \<open>quit <- true\<close> and cannot take it: \<open>Close\<close> does not return. \<open>quit\<close> is still nil, and the
  \<open>quit\<close> branch of the registry's \<open>select\<close> cannot be taken.
\<close>

theorem Close_never_returns:
  assumes "run env sched (init gs) = Some g'" and "i < length gs" and "gs ! i = CloseSend"
  shows "goroutines g' ! i = CloseSend \<and> step env (Goroutine i) g' = None \<and>
         quit g' = NilChan \<and> step env RegistryCaseQuit g' = None"
proof -
  have "quit g' = NilChan \<and> length (goroutines g') = length (goroutines (init gs)) \<and>
        goroutines g' ! i = CloseSend"
    using assms by (intro run_Close_blocked) (simp_all add: init_def)
  then show ?thesis
    by (auto simp: init_def split: registryPc.splits)
qed

theorem Close_never_returns_witness:
  "(0::nat) < length [CloseSend, GetStoragePoolSend ''A''] \<and>
   [CloseSend, GetStoragePoolSend ''A''] ! 0 = CloseSend \<and>
   (\<exists>g'. run demoEnv [Goroutine 1, RegistryCaseSpd, RegistryReply, Goroutine 1]
            (init [CloseSend, GetStoragePoolSend ''A'']) = Some g' \<and>
         goroutines g' = [CloseSend, GetStoragePoolReturned ''A'' (Some (PoolAt 1), None)] \<and>
         step demoEnv (Goroutine 0) g' = None \<and>
         step demoEnv RegistryCaseQuit g' = None)"
proof -
  obtain g' where r: "run demoEnv [Goroutine 1, RegistryCaseSpd, RegistryReply, Goroutine 1]
                        (init [CloseSend, GetStoragePoolSend ''A'']) = Some g'"
    and gs: "goroutines g' = [CloseSend, GetStoragePoolReturned ''A'' (Some (PoolAt 1), None)]"
    by (simp add: init_def demoEnv_def registryHandle_def log_def Let_def)
  from Close_never_returns [OF r, of 0] r gs show ?thesis by simp
qed

section \<open>Properties of the dispatch client\<close>

lemmas call_defs = checkFile_def callTracker_def callStorageUpload_def callStorageDelete_def
  callStorageDownload_def

lemmas op_defs = UploadByFilename_def UploadByBuffer_def UploadSlaveByFilename_def
  UploadSlaveByBuffer_def UploadAppenderByFilename_def UploadAppenderByBuffer_def DeleteFile_def
  DownloadToFile_def DownloadToBuffer_def

lemma getStoragePool_events:
  "trace (snd (getStoragePool env this a s)) =
     trace s @ EvPoolRequest \<lparr>addr = a, minConns = 10, maxConns = 150\<rparr> #
       (case storagePoolMap s a of None \<Rightarrow> [EvNewConnectionPool [a] 10 150] | Some sp \<Rightarrow> [])"
  by (auto simp: getStoragePool_def registryHandle_def log_def Let_def
           split: option.splits prod.splits)

lemma getStoragePool_eq:
  "getStoragePool env this a s = (r, s') \<Longrightarrow>
   trace s' = trace s @ EvPoolRequest \<lparr>addr = a, minConns = 10, maxConns = 150\<rparr> #
       (case storagePoolMap s a of None \<Rightarrow> [EvNewConnectionPool [a] 10 150] | Some sp \<Rightarrow> [])"
  using getStoragePool_events [of env this a s] by simp

text \<open>
  C7. When the local file check of a filename-based upload fails, the operation returns a
  nil response and a new error whose message is the check's message followed by
  \<open>(uploading)\<close>; the file check is the only call it has made: no tracker query, no pool
  request and no storage operation.
\<close>

theorem missing_local_file_short_circuits:
  assumes "fdfsCheckFile env (trace s) filename = Some err"
  shows "UploadByFilename env this filename s
           = ((None, Some (Error (message err @ ''(uploading)''))), log (EvCheckFile filename) s) \<and>
         UploadSlaveByFilename env this filename remoteFileId prefixName s
           = ((None, Some (Error (message err @ ''(uploading)''))), log (EvCheckFile filename) s) \<and>
         UploadAppenderByFilename env this filename s
           = ((None, Some (Error (message err @ ''(uploading)''))), log (EvCheckFile filename) s)"
  using assms
  by (simp add: UploadByFilename_def UploadSlaveByFilename_def UploadAppenderByFilename_def
                checkFile_def)

theorem missing_local_file_short_circuits_witness:
  "fdfsCheckFile demoEnv (trace emptyState) ''missing'' = Some (Error ''no such file'') \<and>
   UploadByFilename demoEnv demoClient ''missing'' emptyState
     = ((None, Some (Error ''no such file(uploading)'')), log (EvCheckFile ''missing'') emptyState) \<and>
   UploadSlaveByFilename demoEnv demoClient ''missing'' ''group1/M00/abc.jpg'' ''_thumb'' emptyState
     = ((None, Some (Error ''no such file(uploading)'')), log (EvCheckFile ''missing'') emptyState) \<and>
   UploadAppenderByFilename demoEnv demoClient ''missing'' emptyState
     = ((None, Some (Error ''no such file(uploading)'')), log (EvCheckFile ''missing'') emptyState)"
  using missing_local_file_short_circuits
          [of demoEnv emptyState "''missing''" "Error ''no such file''" demoClient
              "''group1/M00/abc.jpg''" "''_thumb''"]
  by (simp add: demoEnv_def)

text \<open>
  Whatever the splitter is: when it reports an error for the identifier, \<open>DeleteFile\<close>,
  \<open>DownloadToFile\<close>, \<open>DownloadToBuffer\<close> and \<open>UploadSlaveByBuffer\<close> return that error and
  leave the state untouched, and \<open>UploadSlaveByFilename\<close>, which checks the local file
  first, returns the splitter's error when the file check passes and the file error
  marked \<open>(uploading)\<close> when it fails, the file check being the only call it has made.
\<close>

lemma splitter_error_short_circuits:
  assumes "splitRemoteFileId env remoteFileId = (tmp, Some e)"
  shows "DeleteFile env this remoteFileId s = (Some e, s) \<and>
         DownloadToFile env this localFilename remoteFileId offset downloadSize s = ((None, Some e), s) \<and>
         DownloadToBuffer env this remoteFileId offset downloadSize s = ((None, Some e), s) \<and>
         UploadSlaveByBuffer env this filebuffer remoteFileId fileExtName s = ((None, Some e), s) \<and>
         UploadSlaveByFilename env this filename remoteFileId prefixName s =
           ((None, case fdfsCheckFile env (trace s) filename of
                     None \<Rightarrow> Some e
                   | Some err \<Rightarrow> Some (Error (message err @ ''(uploading)''))),
            log (EvCheckFile filename) s)"
  using assms
  by (simp add: DeleteFile_def DownloadToFile_def DownloadToBuffer_def UploadSlaveByBuffer_def
                UploadSlaveByFilename_def checkFile_def split: option.splits)

lemma splitRemoteFileId_spec_malformed:
  assumes "\<not> (\<exists>g f. g \<noteq> [] \<and> f \<noteq> [] \<and> CHR ''/'' \<notin> set g \<and> remoteFileId = g @ CHR ''/'' # f)"
  shows "splitRemoteFileId_spec remoteFileId = ([], Some (Error ''malformed remote file id''))"
proof -
  have "snd (splitRemoteFileId_spec remoteFileId) \<noteq> None"
    using assms splitRemoteFileId_spec_rejects [of remoteFileId] by blast
  then show ?thesis
    by (auto simp: splitRemoteFileId_spec_def Let_def split: if_splits)
qed

lemma noSlashHere_malformed:
  "\<not> (\<exists>g f. g \<noteq> [] \<and> f \<noteq> [] \<and> CHR ''/'' \<notin> set g \<and> ''noSlashHere'' = g @ CHR ''/'' # f)"
proof
  assume "\<exists>g f. g \<noteq> [] \<and> f \<noteq> [] \<and> CHR ''/'' \<notin> set g \<and> ''noSlashHere'' = g @ CHR ''/'' # f"
  then obtain g f where "''noSlashHere'' = g @ CHR ''/'' # f" by blast
  then have "set ''noSlashHere'' = set (g @ CHR ''/'' # f)" by simp
  then have "CHR ''/'' \<in> set ''noSlashHere''" by simp
  then show False by simp
qed

text \<open>
  C2, as amended. With the splitter the spec describes: when the identifier is not a
  non-empty group without separator, a separator and a non-empty remote file name, that
  is, when it does not split on the first separator into exactly two non-empty
  components, \<open>DeleteFile\<close>, \<open>DownloadToFile\<close>, \<open>DownloadToBuffer\<close> and \<open>UploadSlaveByBuffer\<close>
  return the format error and leave the state untouched: no tracker query, no pool
  request, no storage operation. \<open>UploadSlaveByFilename\<close> does the same when its local file
  check passes; the file check, which it makes first, is then the only call it has made.
\<close>

theorem malformed_identifier_short_circuits:
  assumes "splitRemoteFileId env = splitRemoteFileId_spec"
      and "\<not> (\<exists>g f. g \<noteq> [] \<and> f \<noteq> [] \<and> CHR ''/'' \<notin> set g \<and> remoteFileId = g @ CHR ''/'' # f)"
  shows "DeleteFile env this remoteFileId s = (Some (Error ''malformed remote file id''), s) \<and>
         DownloadToFile env this localFilename remoteFileId offset downloadSize s
           = ((None, Some (Error ''malformed remote file id'')), s) \<and>
         DownloadToBuffer env this remoteFileId offset downloadSize s
           = ((None, Some (Error ''malformed remote file id'')), s) \<and>
         UploadSlaveByBuffer env this filebuffer remoteFileId fileExtName s
           = ((None, Some (Error ''malformed remote file id'')), s) \<and>
         (fdfsCheckFile env (trace s) filename = None \<longrightarrow>
            UploadSlaveByFilename env this filename remoteFileId prefixName s
              = ((None, Some (Error ''malformed remote file id'')), log (EvCheckFile filename) s))"
proof -
  have "splitRemoteFileId env remoteFileId = ([], Some (Error ''malformed remote file id''))"
    using assms by (simp add: splitRemoteFileId_spec_malformed)
  from splitter_error_short_circuits [OF this] show ?thesis
    by simp
qed

theorem malformed_identifier_short_circuits_witness:
  "splitRemoteFileId demoEnv = splitRemoteFileId_spec \<and>
   \<not> (\<exists>g f. g \<noteq> [] \<and> f \<noteq> [] \<and> CHR ''/'' \<notin> set g \<and> ''noSlashHere'' = g @ CHR ''/'' # f) \<and>
   fdfsCheckFile demoEnv (trace emptyState) ''thumb.jpg'' = None \<and>
   DeleteFile demoEnv demoClient ''noSlashHere'' emptyState
     = (Some (Error ''malformed remote file id''), emptyState) \<and>
   DownloadToBuffer demoEnv demoClient ''noSlashHere'' 0 0 emptyState
     = ((None, Some (Error ''malformed remote file id'')), emptyState) \<and>
   UploadSlaveByFilename demoEnv demoClient ''thumb.jpg'' ''noSlashHere'' ''_thumb'' emptyState
     = ((None, Some (Error ''malformed remote file id'')), log (EvCheckFile ''thumb.jpg'') emptyState)"
proof -
  have e: "splitRemoteFileId demoEnv = splitRemoteFileId_spec" by (simp add: demoEnv_def)
  have c: "fdfsCheckFile demoEnv (trace emptyState) ''thumb.jpg'' = None" by (simp add: demoEnv_def)
  from malformed_identifier_short_circuits
         [OF e noSlashHere_malformed, of demoClient emptyState "''out''" 0 0 "[]" "''jpg''"
             "''thumb.jpg''" "''_thumb''"]
       e c noSlashHere_malformed
  show ?thesis by simp
qed

text \<open>
  C2 as stated fails for \<open>UploadSlaveByFilename\<close>: with the malformed identifier
  \<open>noSlashHere\<close> and a local file that does not exist, the error returned is the file
  error marked \<open>(uploading)\<close>, not the format error.
\<close>

theorem malformed_identifier_counterexample:
  "splitRemoteFileId demoEnv ''noSlashHere'' = ([], Some (Error ''malformed remote file id'')) \<and>
   fst (UploadSlaveByFilename demoEnv demoClient ''missing'' ''noSlashHere'' ''_thumb'' emptyState)
     = (None, Some (Error ''no such file(uploading)'')) \<and>
   Error ''no such file(uploading)'' \<noteq> Error ''malformed remote file id''"
  by (simp add: demoEnv_def splitRemoteFileId_spec_def UploadSlaveByFilename_def checkFile_def)

lemma getStoragePool_cases:
  assumes "getStoragePool env this a s = ((p, err), s')"
  shows "(\<exists>sp. storagePoolMap s a = Some sp \<and>
            trace s' = trace s @ [EvPoolRequest \<lparr>addr = a, minConns = 10, maxConns = 150\<rparr>]) \<or>
         (storagePoolMap s a = None \<and>
            trace s' = trace s @ [EvPoolRequest \<lparr>addr = a, minConns = 10, maxConns = 150\<rparr>,
                                  EvNewConnectionPool [a] 10 150] \<and>
            (p = None \<or>
             snd (NewConnectionPool env
                    (trace s @ [EvPoolRequest \<lparr>addr = a, minConns = 10, maxConns = 150\<rparr>])
                    [a] 10 150) = None))"
  using assms
  by (auto simp: getStoragePool_def registryHandle_def log_def Let_def
           split: option.splits prod.splits)

text \<open>
  C3 fails on the code. When an operation has the registry attempt the construction of a
  pool for an address whose pool cannot be built, \<open>getStoragePool\<close> returns the
  construction error; the operation does not stop there: the last call it makes is its
  storage operation, on a \<open>StorageClient\<close> whose pool is nil.
\<close>

theorem pool_error_is_ignored:
  assumes "dispatch env this c s = (r, s')"
      and "EvNewConnectionPool [a] mn mx \<in> set (newEvents s s')"
      and "\<forall>h. snd (NewConnectionPool env h [a] mn mx) \<noteq> None"
  shows "storageOnNilPool (last (trace s'))"
  using assms
  by (cases c)
     (auto simp: op_defs call_defs log_def newEvents_def Let_def uploadResult_def deleteResult_def
        downloadResult_def simp del: not_None_eq
        split: prod.splits option.splits sum.splits if_splits dest!: getStoragePool_cases)

text \<open>
  With the tracker naming the storage server \<open>down\<close>: the pool lookup fails with
  \<open>connection refused\<close>, and each of the nine operations ends with its storage operation
  on a nil pool and returns that operation's error, not the pool error.
\<close>

theorem pool_error_is_ignored_witness:
  "(\<forall>h. snd (NewConnectionPool deadEnv h [''down''] 10 150) \<noteq> None) \<and>
   fst (getStoragePool deadEnv demoClient ''down'' emptyState)
     = (None, Some (Error ''connection refused'')) \<and>
   list_all
     (\<lambda>c. case dispatch deadEnv demoClient c emptyState of
             (r, s') \<Rightarrow>
               EvNewConnectionPool [''down''] 10 150 \<in> set (newEvents emptyState s') \<and>
               storageOnNilPool (last (trace s')) \<and>
               resultError r = Some (Error ''nil pool''))
     [CallUploadByFilename ''a.jpg'', CallUploadByBuffer [] ''jpg'',
      CallUploadSlaveByFilename ''a.jpg'' ''g/f'' ''_t'', CallUploadSlaveByBuffer [] ''g/f'' ''jpg'',
      CallUploadAppenderByFilename ''a.jpg'', CallUploadAppenderByBuffer [] ''jpg'',
      CallDeleteFile ''g/f'', CallDownloadToFile ''out'' ''g/f'' 0 0, CallDownloadToBuffer ''g/f'' 0 0]"
  using pool_error_is_ignored
          [of deadEnv demoClient "CallDeleteFile ''g/f''" emptyState
              "fst (dispatch deadEnv demoClient (CallDeleteFile ''g/f'') emptyState)"
              "snd (dispatch deadEnv demoClient (CallDeleteFile ''g/f'') emptyState)"
              "''down''" 10 150]
  by (simp add: deadEnv_def demoEnv_def demoClient_def emptyState_def splitRemoteFileId_spec_def
        op_defs call_defs getStoragePool_def registryHandle_def log_def Let_def newEvents_def
        uploadResult_def deleteResult_def downloadResult_def)

lemma bounds_dispatch:
  "list_all fixedBounds (newEvents s (snd (dispatch env this c s)))"
  by (cases c)
     (auto simp: op_defs call_defs log_def newEvents_def Let_def uploadResult_def deleteResult_def
        downloadResult_def
        split: prod.splits option.splits sum.splits dest!: getStoragePool_eq)

lemma getStoragePool_trace:
  "getStoragePool env this a s = (r, s') \<Longrightarrow> trace s' = trace s @ poolEvents s a"
  using getStoragePool_events [of env this a s] by (simp add: poolEvents_def)

lemma filter_poolEvents: "filter isPoolEvent (poolEvents s a) = poolEvents s a"
  by (simp add: poolEvents_def split: option.splits)

lemmas pool_simps = op_defs call_defs log_def newEvents_def Let_def filter_poolEvents

lemma pool_UploadByBuffer:
  assumes "trackerQuery env (trace s) (pool this) TrackerQueryStorageStorWithoutGroup = Inr storeServ"
  shows "filter isPoolEvent (newEvents s (snd (UploadByBuffer env this filebuffer fileExtName s)))
           = poolEvents s (ipAddr storeServ)"
    and "filter isPoolEvent (newEvents s (snd (UploadAppenderByBuffer env this filebuffer fileExtName s)))
           = poolEvents s (ipAddr storeServ)"
  using assms
  by (auto simp: pool_simps poolEvents_def split: prod.splits option.splits dest!: getStoragePool_trace)

lemma pool_UploadByFilename:
  assumes "fdfsCheckFile env (trace s) filename = None"
      and "trackerQuery env (trace s @ [EvCheckFile filename]) (pool this)
             TrackerQueryStorageStorWithoutGroup = Inr storeServ"
  shows "filter isPoolEvent (newEvents s (snd (UploadByFilename env this filename s)))
           = poolEvents s (ipAddr storeServ)"
    and "filter isPoolEvent (newEvents s (snd (UploadAppenderByFilename env this filename s)))
           = poolEvents s (ipAddr storeServ)"
  using assms
  by (auto simp: pool_simps poolEvents_def split: prod.splits option.splits dest!: getStoragePool_trace)

lemma pool_UploadSlaveByBuffer:
  assumes "splitRemoteFileId env remoteFileId = ([groupName, remoteFilename], None)"
      and "trackerQuery env (trace s) (pool this) (TrackerQueryStorageStorWithGroup groupName)
             = Inr storeServ"
  shows "filter isPoolEvent
           (newEvents s (snd (UploadSlaveByBuffer env this filebuffer remoteFileId fileExtName s)))
           = poolEvents s (ipAddr storeServ)"
  using assms
  by (auto simp: pool_simps poolEvents_def split: prod.splits option.splits dest!: getStoragePool_trace)

lemma pool_UploadSlaveByFilename:
  assumes "splitRemoteFileId env remoteFileId = ([groupName, remoteFilename], None)"
      and "fdfsCheckFile env (trace s) filename = None"
      and "trackerQuery env (trace s @ [EvCheckFile filename]) (pool this)
             (TrackerQueryStorageStorWithGroup groupName) = Inr storeServ"
  shows "filter isPoolEvent
           (newEvents s (snd (UploadSlaveByFilename env this filename remoteFileId prefixName s)))
           = poolEvents s (ipAddr storeServ)"
  using assms
  by (auto simp: pool_simps poolEvents_def split: prod.splits option.splits dest!: getStoragePool_trace)

lemma pool_DeleteFile:
  assumes "splitRemoteFileId env remoteFileId = ([groupName, remoteFilename], None)"
      and "trackerQuery env (trace s) (pool this) (TrackerQueryStorageUpdate groupName remoteFilename)
             = Inr storeServ"
  shows "filter isPoolEvent (newEvents s (snd (DeleteFile env this remoteFileId s)))
           = poolEvents s (ipAddr storeServ)"
  using assms
  by (auto simp: pool_simps poolEvents_def split: prod.splits option.splits dest!: getStoragePool_trace)

lemma pool_Download:
  assumes "splitRemoteFileId env remoteFileId = ([groupName, remoteFilename], None)"
      and "trackerQuery env (trace s) (pool this) (TrackerQueryStorageFetch groupName remoteFilename)
             = Inr storeServ"
  shows "filter isPoolEvent
           (newEvents s (snd (DownloadToFile env this localFilename remoteFileId offset downloadSize s)))
           = poolEvents s (ipAddr storeServ)"
    and "filter isPoolEvent
           (newEvents s (snd (DownloadToBuffer env this remoteFileId offset downloadSize s)))
           = poolEvents s (ipAddr storeServ)"
  using assms
  by (auto simp: pool_simps poolEvents_def split: prod.splits option.splits dest!: getStoragePool_trace)

lemma dispatch_state:
  "snd (dispatch env this (CallUploadByFilename filename) s)
     = snd (UploadByFilename env this filename s)"
  "snd (dispatch env this (CallUploadByBuffer filebuffer fileExtName) s)
     = snd (UploadByBuffer env this filebuffer fileExtName s)"
  "snd (dispatch env this (CallUploadSlaveByFilename filename remoteFileId prefixName) s)
     = snd (UploadSlaveByFilename env this filename remoteFileId prefixName s)"
  "snd (dispatch env this (CallUploadSlaveByBuffer filebuffer remoteFileId fileExtName) s)
     = snd (UploadSlaveByBuffer env this filebuffer remoteFileId fileExtName s)"
  "snd (dispatch env this (CallUploadAppenderByFilename filename) s)
     = snd (UploadAppenderByFilename env this filename s)"
  "snd (dispatch env this (CallUploadAppenderByBuffer filebuffer fileExtName) s)
     = snd (UploadAppenderByBuffer env this filebuffer fileExtName s)"
  "snd (dispatch env this (CallDeleteFile remoteFileId) s)
     = snd (DeleteFile env this remoteFileId s)"
  "snd (dispatch env this (CallDownloadToFile localFilename remoteFileId offset downloadSize) s)
     = snd (DownloadToFile env this localFilename remoteFileId offset downloadSize s)"
  "snd (dispatch env this (CallDownloadToBuffer remoteFileId offset downloadSize) s)
     = snd (DownloadToBuffer env this remoteFileId offset downloadSize s)"
  by (simp_all add: uploadResult_def deleteResult_def downloadResult_def)

text \<open>
  C8. \<open>New\<close> makes exactly one call, \<open>NewConnectionPool\<close> on the configured endpoints with
  the bounds 10 and 150. \<open>getStoragePool\<close> begins by sending the registry a request that
  carries the address and the bounds 10 and 150. In every operation, whatever its
  arguments and whatever the collaborators answer, every pool request sent and every pool
  construction made carries the bounds 10 and 150. And each of the nine operations, reached
  through \<open>dispatch\<close>, once its checks have passed and the tracker has named a storage
  server, does turn to the registry: the calls it makes that concern the registry are
  exactly one request for that server's address with the bounds 10 and 150, followed, when
  the map has no pool for the address, by one construction for that address with the
  bounds 10 and 150.
\<close>

theorem pool_bounds_are_fixed:
  "newEvents s (snd (New env cfg s)) = [EvNewConnectionPool (Endpoints cfg) 10 150] \<and>
   take 1 (newEvents s (snd (getStoragePool env this a s)))
     = [EvPoolRequest \<lparr>addr = a, minConns = 10, maxConns = 150\<rparr>] \<and>
   list_all fixedBounds (newEvents s (snd (dispatch env this c s))) \<and>
   (trackerQuery env (trace s) (pool this) TrackerQueryStorageStorWithoutGroup = Inr storeServ \<longrightarrow>
      filter isPoolEvent (newEvents s (snd (dispatch env this (CallUploadByBuffer filebuffer fileExtName) s)))
        = poolEvents s (ipAddr storeServ) \<and>
      filter isPoolEvent (newEvents s (snd (dispatch env this (CallUploadAppenderByBuffer filebuffer fileExtName) s)))
        = poolEvents s (ipAddr storeServ)) \<and>
   (fdfsCheckFile env (trace s) filename = None \<and>
    trackerQuery env (trace s @ [EvCheckFile filename]) (pool this)
      TrackerQueryStorageStorWithoutGroup = Inr storeServ \<longrightarrow>
      filter isPoolEvent (newEvents s (snd (dispatch env this (CallUploadByFilename filename) s)))
        = poolEvents s (ipAddr storeServ) \<and>
      filter isPoolEvent (newEvents s (snd (dispatch env this (CallUploadAppenderByFilename filename) s)))
        = poolEvents s (ipAddr storeServ)) \<and>
   (splitRemoteFileId env remoteFileId = ([groupName, remoteFilename], None) \<and>
    trackerQuery env (trace s) (pool this) (TrackerQueryStorageStorWithGroup groupName)
      = Inr storeServ \<longrightarrow>
      filter isPoolEvent
        (newEvents s (snd (dispatch env this (CallUploadSlaveByBuffer filebuffer remoteFileId fileExtName) s)))
        = poolEvents s (ipAddr storeServ)) \<and>
   (splitRemoteFileId env remoteFileId = ([groupName, remoteFilename], None) \<and>
    fdfsCheckFile env (trace s) filename = None \<and>
    trackerQuery env (trace s @ [EvCheckFile filename]) (pool this)
      (TrackerQueryStorageStorWithGroup groupName) = Inr storeServ \<longrightarrow>
      filter isPoolEvent
        (newEvents s (snd (dispatch env this (CallUploadSlaveByFilename filename remoteFileId prefixName) s)))
        = poolEvents s (ipAddr storeServ)) \<and>
   (splitRemoteFileId env remoteFileId = ([groupName, remoteFilename], None) \<and>
    trackerQuery env (trace s) (pool this) (TrackerQueryStorageUpdate groupName remoteFilename)
      = Inr storeServ \<longrightarrow>
      filter isPoolEvent (newEvents s (snd (dispatch env this (CallDeleteFile remoteFileId) s)))
        = poolEvents s (ipAddr storeServ)) \<and>
   (splitRemoteFileId env remoteFileId = ([groupName, remoteFilename], None) \<and>
    trackerQuery env (trace s) (pool this) (TrackerQueryStorageFetch groupName remoteFilename)
      = Inr storeServ \<longrightarrow>
      filter isPoolEvent
        (newEvents s (snd (dispatch env this (CallDownloadToFile localFilename remoteFileId offset downloadSize) s)))
        = poolEvents s (ipAddr storeServ) \<and>
      filter isPoolEvent
        (newEvents s (snd (dispatch env this (CallDownloadToBuffer remoteFileId offset downloadSize) s)))
        = poolEvents s (ipAddr storeServ))"
proof -
  have "newEvents s (snd (New env cfg s)) = [EvNewConnectionPool (Endpoints cfg) 10 150]"
    by (simp add: New_def newEvents_def log_def Let_def split: prod.splits option.splits)
  moreover have "take 1 (newEvents s (snd (getStoragePool env this a s)))
     = [EvPoolRequest \<lparr>addr = a, minConns = 10, maxConns = 150\<rparr>]"
    by (simp add: getStoragePool_events newEvents_def)
  moreover have "list_all fixedBounds (newEvents s (snd (dispatch env this c s)))"
    by (rule bounds_dispatch)
  moreover have
    "trackerQuery env (trace s) (pool this) TrackerQueryStorageStorWithoutGroup = Inr storeServ \<longrightarrow>
      filter isPoolEvent (newEvents s (snd (dispatch env this (CallUploadByBuffer filebuffer fileExtName) s)))
        = poolEvents s (ipAddr storeServ) \<and>
      filter isPoolEvent (newEvents s (snd (dispatch env this (CallUploadAppenderByBuffer filebuffer fileExtName) s)))
        = poolEvents s (ipAddr storeServ)"
    unfolding dispatch_state by (blast intro: pool_UploadByBuffer)
  moreover have
    "fdfsCheckFile env (trace s) filename = None \<and>
     trackerQuery env (trace s @ [EvCheckFile filename]) (pool this)
       TrackerQueryStorageStorWithoutGroup = Inr storeServ \<longrightarrow>
      filter isPoolEvent (newEvents s (snd (dispatch env this (CallUploadByFilename filename) s)))
        = poolEvents s (ipAddr storeServ) \<and>
      filter isPoolEvent (newEvents s (snd (dispatch env this (CallUploadAppenderByFilename filename) s)))
        = poolEvents s (ipAddr storeServ)"
    unfolding dispatch_state by (blast intro: pool_UploadByFilename)
  moreover have
    "splitRemoteFileId env remoteFileId = ([groupName, remoteFilename], None) \<and>
     trackerQuery env (trace s) (pool this) (TrackerQueryStorageStorWithGroup groupName)
       = Inr storeServ \<longrightarrow>
      filter isPoolEvent
        (newEvents s (snd (dispatch env this (CallUploadSlaveByBuffer filebuffer remoteFileId fileExtName) s)))
        = poolEvents s (ipAddr storeServ)"
    unfolding dispatch_state by (blast intro: pool_UploadSlaveByBuffer)
  moreover have
    "splitRemoteFileId env remoteFileId = ([groupName, remoteFilename], None) \<and>
     fdfsCheckFile env (trace s) filename = None \<and>
     trackerQuery env (trace s @ [EvCheckFile filename]) (pool this)
       (TrackerQueryStorageStorWithGroup groupName) = Inr storeServ \<longrightarrow>
      filter isPoolEvent
        (newEvents s (snd (dispatch env this (CallUploadSlaveByFilename filename remoteFileId prefixName) s)))
        = poolEvents s (ipAddr storeServ)"
    unfolding dispatch_state by (blast intro: pool_UploadSlaveByFilename)
  moreover have
    "splitRemoteFileId env remoteFileId = ([groupName, remoteFilename], None) \<and>
     trackerQuery env (trace s) (pool this) (TrackerQueryStorageUpdate groupName remoteFilename)
       = Inr storeServ \<longrightarrow>
      filter isPoolEvent (newEvents s (snd (dispatch env this (CallDeleteFile remoteFileId) s)))
        = poolEvents s (ipAddr storeServ)"
    unfolding dispatch_state by (blast intro: pool_DeleteFile)
  moreover have
    "splitRemoteFileId env remoteFileId = ([groupName, remoteFilename], None) \<and>
     trackerQuery env (trace s) (pool this) (TrackerQueryStorageFetch groupName remoteFilename)
       = Inr storeServ \<longrightarrow>
      filter isPoolEvent
        (newEvents s (snd (dispatch env this (CallDownloadToFile localFilename remoteFileId offset downloadSize) s)))
        = poolEvents s (ipAddr storeServ) \<and>
      filter isPoolEvent
        (newEvents s (snd (dispatch env this (CallDownloadToBuffer remoteFileId offset downloadSize) s)))
        = poolEvents s (ipAddr storeServ)"
    unfolding dispatch_state by (blast intro: pool_Download)
  ultimately show ?thesis
    by (intro conjI)
qed

theorem pool_bounds_are_fixed_witness:
  "trackerQuery demoEnv (trace emptyState) (pool demoClient) TrackerQueryStorageStorWithoutGroup
     = Inr \<lparr>ipAddr = ''A''\<rparr> \<and>
   splitRemoteFileId demoEnv ''group1/M00/abc.jpg'' = ([''group1'', ''M00/abc.jpg''], None) \<and>
   trackerQuery demoEnv (trace emptyState) (pool demoClient)
     (TrackerQueryStorageUpdate ''group1'' ''M00/abc.jpg'') = Inr \<lparr>ipAddr = ''B''\<rparr> \<and>
   filter isPoolEvent
     (newEvents emptyState (snd (dispatch demoEnv demoClient (CallUploadAppenderByBuffer [] ''jpg'') emptyState)))
     = [EvPoolRequest \<lparr>addr = ''A'', minConns = 10, maxConns = 150\<rparr>,
        EvNewConnectionPool [''A''] 10 150] \<and>
   filter isPoolEvent
     (newEvents emptyState (snd (dispatch demoEnv demoClient (CallDeleteFile ''group1/M00/abc.jpg'') emptyState)))
     = [EvPoolRequest \<lparr>addr = ''B'', minConns = 10, maxConns = 150\<rparr>,
        EvNewConnectionPool [''B''] 10 150]"
  using pool_bounds_are_fixed [where s = emptyState and env = demoEnv and this = demoClient
                  and storeServ = "\<lparr>ipAddr = ''A''\<rparr>" and filebuffer = "[]" and fileExtName = "''jpg''"]
        pool_bounds_are_fixed [where s = emptyState and env = demoEnv and this = demoClient
                  and storeServ = "\<lparr>ipAddr = ''B''\<rparr>" and remoteFileId = "''group1/M00/abc.jpg''"
                  and groupName = "''group1''" and remoteFilename = "''M00/abc.jpg''"]
  by (simp add: demoEnv_def demoClient_def emptyState_def splitRemoteFileId_spec_def
                poolEvents_def uploadResult_def deleteResult_def)


text \<open>
  C9. When the local file check passes and the identifier splits into \<open>groupName\<close> and
  \<open>remoteFilename\<close>, each operation makes exactly one tracker query, on the client's
  tracker pool: the four fresh uploads query for a storage server without a group, the two
  slave uploads query for a storage server of the group \<open>groupName\<close>, \<open>DeleteFile\<close> makes
  the update query for \<open>groupName\<close> and \<open>remoteFilename\<close>, and the two downloads make the
  fetch query for \<open>groupName\<close> and \<open>remoteFilename\<close>.
\<close>

theorem tracker_query_matches_operation:
  assumes "fdfsCheckFile env (trace s) filename = None"
      and "splitRemoteFileId env remoteFileId = ([groupName, remoteFilename], None)"
  shows "filter isTracker (newEvents s (snd (UploadByFilename env this filename s)))
           = [EvTracker (pool this) TrackerQueryStorageStorWithoutGroup] \<and>
         filter isTracker (newEvents s (snd (UploadByBuffer env this filebuffer fileExtName s)))
           = [EvTracker (pool this) TrackerQueryStorageStorWithoutGroup] \<and>
         filter isTracker (newEvents s (snd (UploadAppenderByFilename env this filename s)))
           = [EvTracker (pool this) TrackerQueryStorageStorWithoutGroup] \<and>
         filter isTracker (newEvents s (snd (UploadAppenderByBuffer env this filebuffer fileExtName s)))
           = [EvTracker (pool this) TrackerQueryStorageStorWithoutGroup] \<and>
         filter isTracker
           (newEvents s (snd (UploadSlaveByFilename env this filename remoteFileId prefixName s)))
           = [EvTracker (pool this) (TrackerQueryStorageStorWithGroup groupName)] \<and>
         filter isTracker
           (newEvents s (snd (UploadSlaveByBuffer env this filebuffer remoteFileId fileExtName s)))
           = [EvTracker (pool this) (TrackerQueryStorageStorWithGroup groupName)] \<and>
         filter isTracker (newEvents s (snd (DeleteFile env this remoteFileId s)))
           = [EvTracker (pool this) (TrackerQueryStorageUpdate groupName remoteFilename)] \<and>
         filter isTracker
           (newEvents s (snd (DownloadToFile env this localFilename remoteFileId offset downloadSize s)))
           = [EvTracker (pool this) (TrackerQueryStorageFetch groupName remoteFilename)] \<and>
         filter isTracker
           (newEvents s (snd (DownloadToBuffer env this remoteFileId offset downloadSize s)))
           = [EvTracker (pool this) (TrackerQueryStorageFetch groupName remoteFilename)]"
  using assms
  by (intro conjI)
     (auto simp: op_defs call_defs log_def newEvents_def Let_def
       split: prod.splits option.splits sum.splits dest!: getStoragePool_eq)

theorem tracker_query_matches_operation_witness:
  "fdfsCheckFile demoEnv (trace emptyState) ''a.jpg'' = None \<and>
   splitRemoteFileId demoEnv ''group1/M00/abc.jpg'' = ([''group1'', ''M00/abc.jpg''], None) \<and>
   filter isTracker (newEvents emptyState (snd (UploadByFilename demoEnv demoClient ''a.jpg'' emptyState)))
     = [EvTracker (Some (PoolAt 0)) TrackerQueryStorageStorWithoutGroup] \<and>
   filter isTracker
     (newEvents emptyState
        (snd (UploadSlaveByBuffer demoEnv demoClient [] ''group1/M00/abc.jpg'' ''jpg'' emptyState)))
     = [EvTracker (Some (PoolAt 0)) (TrackerQueryStorageStorWithGroup ''group1'')] \<and>
   filter isTracker
     (newEvents emptyState (snd (DeleteFile demoEnv demoClient ''group1/M00/abc.jpg'' emptyState)))
     = [EvTracker (Some (PoolAt 0)) (TrackerQueryStorageUpdate ''group1'' ''M00/abc.jpg'')] \<and>
   filter isTracker
     (newEvents emptyState
        (snd (DownloadToBuffer demoEnv demoClient ''group1/M00/abc.jpg'' 0 0 emptyState)))
     = [EvTracker (Some (PoolAt 0)) (TrackerQueryStorageFetch ''group1'' ''M00/abc.jpg'')]"
  using tracker_query_matches_operation
          [of demoEnv emptyState "''a.jpg''" "''group1/M00/abc.jpg''" "''group1''" "''M00/abc.jpg''"
              demoClient "[]" "''jpg''" "''_thumb''" "''out''" 0 0]
  by (simp add: demoEnv_def demoClient_def splitRemoteFileId_spec_def)

end
